theory Spec2Isabelle
  imports Main "HOL-Library.Option_ord" "HOL-Library.Char_ord" "HOL-Library.List_Lexorder"
    "HOL-Library.Product_Lexorder" "HOL-Library.AList"
begin

section \<open>Data model (database.py)\<close>

text \<open>
  The two enumerations of \<^verbatim>\<open>database.py\<close>. Both are \<^verbatim>\<open>str\<close> enums whose values are
  non-empty strings, so every member is truthy in a Python condition.
\<close>

datatype UserRole = OWNER | ADMIN | WORKER

datatype TaskStatus = TODO | IN_PROGRESS | DONE | DISPUTED

text \<open>
  A row of table \<^verbatim>\<open>users\<close>. \<^verbatim>\<open>id\<close> is the integer primary key, \<^verbatim>\<open>telegram_id\<close> is
  unique and not null. Every path of \<^verbatim>\<open>main.py\<close> that writes a row gives it a name and a
  role, so both are modelled without the SQL null.
\<close>

record User =
  user_id :: int
  telegram_id :: int
  full_name :: string
  role :: UserRole

text \<open>
  A row of table \<^verbatim>\<open>tasks\<close>. The columns the schema leaves nullable and that
  \<^verbatim>\<open>main.py\<close> can write \<^verbatim>\<open>None\<close> into are options; \<^verbatim>\<open>title\<close> is \<^verbatim>\<open>nullable=False\<close>.
  A \<^verbatim>\<open>datetime\<close> is an integer timestamp.
\<close>

record Task =
  task_id :: int
  title :: string
  description :: "string option"
  status :: "TaskStatus option"
  dispute_reason :: "string option"
  is_locked :: bool
  creator_id :: "int option"
  assignee_id :: "int option"
  deadline :: "int option"
  created_at :: int

text \<open>The persistent store: the rows of the two tables, in primary-key order.\<close>

record DB =
  users :: "User list"
  tasks :: "Task list"

definition empty_db :: DB where
  "empty_db = \<lparr>users = [], tasks = []\<rparr>"

section \<open>Failures\<close>

text \<open>
  A request ends with \<^verbatim>\<open>HTTPException(status, detail)\<close> (\<^verbatim>\<open>detail\<close> absent when the source
  gives none), or with a Python exception no handler catches.
\<close>

datatype PyException = AttributeError | KeyError | ValueError | TypeError
  | JSONDecodeError | MultipleResultsFound | IntegrityError

datatype Failure = HTTPException nat "string option" | Unhandled PyException

text \<open>The error kinds of the specification, as the source raises them.\<close>

definition AuthenticationFailure :: Failure where
  "AuthenticationFailure = HTTPException 403 (Some ''Auth failed'')"

definition Forbidden :: Failure where
  "Forbidden = HTTPException 403 None"

definition OnlyOwner :: Failure where
  "OnlyOwner = HTTPException 403 (Some ''Only Owner'')"

definition NotFound :: Failure where
  "NotFound = HTTPException 404 None"

definition InvalidState :: Failure where
  "InvalidState = HTTPException 400 None"

section \<open>Request bodies (main.py, Models)\<close>

text \<open>
  A field of a pydantic model whose default is \<^verbatim>\<open>None\<close>: either the request body did not
  mention it (\<open>Unset\<close>), or it gave a value, which may be JSON \<^verbatim>\<open>null\<close> (\<open>Given None\<close>).
  Reading the attribute gives \<^verbatim>\<open>None\<close> in both of the first two cases;
  \<^verbatim>\<open>dict(exclude_unset=True)\<close> tells them apart.
\<close>

datatype 'a field = Unset | Given "'a option"

fun fval :: "'a field \<Rightarrow> 'a option" where
  "fval Unset = None"
| "fval (Given v) = v"

record TaskUpdate =
  upd_status :: "TaskStatus field"
  upd_title :: "string field"
  upd_description :: "string field"
  upd_deadline :: "int field"
  upd_dispute_reason :: "string field"

record TaskCreate =
  new_title :: string
  new_description :: "string option"
  new_assignee_id :: int
  new_deadline :: "int option"

text \<open>
  The identity claim \<^verbatim>\<open>json.loads(parsed_data['user'])\<close> yields: the handlers read
  \<^verbatim>\<open>tg_user['id']\<close> and, with default \<^verbatim>\<open>''\<close>, the two name parts.
\<close>

record TgUser =
  tg_id :: int
  first_name :: "string option"
  last_name :: "string option"

section \<open>Identity verifier (main.py, validate_telegram_data)\<close>

text \<open>
  \<^verbatim>\<open>dict(pairs)\<close>: a later pair with the same key replaces the value and keeps the
  position of the first.
\<close>

definition dict_of :: "('k \<times> 'v) list \<Rightarrow> ('k \<times> 'v) list" where
  "dict_of pairs = fold (\<lambda>(k, v) d. AList.update k v d) pairs []"

definition dict_pop :: "'k \<Rightarrow> ('k \<times> 'v) list \<Rightarrow> PyException + ('v \<times> ('k \<times> 'v) list)" where
  "dict_pop k d = (case map_of d k of None \<Rightarrow> Inl KeyError
                   | Some v \<Rightarrow> Inr (v, AList.delete k d))"

definition dict_get :: "('k \<times> 'v) list \<Rightarrow> 'k \<Rightarrow> PyException + 'v" where
  "dict_get d k = (case map_of d k of None \<Rightarrow> Inl KeyError | Some v \<Rightarrow> Inr v)"

fun join :: "string \<Rightarrow> string list \<Rightarrow> string" where
  "join sep [] = []"
| "join sep [x] = x"
| "join sep (x # y # ys) = x @ sep @ join sep (y # ys)"

definition data_check_string :: "(string \<times> string) list \<Rightarrow> string" where
  "data_check_string parsed_data =
     join [CHR 0x0A] (map (\<lambda>(k, v). k @ ''='' @ v) (sort parsed_data))"

text \<open>
  What the module reads from outside the repository: the configuration
  (\<^verbatim>\<open>BOT_TOKEN\<close>, \<^verbatim>\<open>OWNER_ID\<close>) and the library functions the verifier calls:
  \<open>parse_qsl\<close> (\<^verbatim>\<open>urllib.parse.parse_qsl\<close>), \<open>hmac_digest key msg\<close> and
  \<open>hmac_hexdigest key msg\<close> (\<^verbatim>\<open>hmac.new(key, msg, sha256)\<close>), and \<open>json_loads\<close>
  (\<open>None\<close> where \<^verbatim>\<open>json.loads\<close> raises).
\<close>

record Env =
  parse_qsl :: "string \<Rightarrow> (string \<times> string) list"
  hmac_digest :: "string \<Rightarrow> string \<Rightarrow> string"
  hmac_hexdigest :: "string \<Rightarrow> string \<Rightarrow> string"
  json_loads :: "string \<Rightarrow> TgUser option"
  BOT_TOKEN :: string
  OWNER_ID :: int

text \<open>
  The body of the \<^verbatim>\<open>try\<close> block. \<open>init_data\<close> is \<open>None\<close> when the request has no
  \<^verbatim>\<open>X-Telegram-Init-Data\<close> header; \<^verbatim>\<open>parse_qsl(None)\<close> then raises or gives no pair,
  and either way an exception leaves the block: it is taken here as raising at once.
\<close>

definition validate_try :: "Env \<Rightarrow> string option \<Rightarrow> string \<Rightarrow> PyException + TgUser" where
  "validate_try env init_data bot_token =
     (case init_data of
        None \<Rightarrow> Inl TypeError
      | Some qs \<Rightarrow>
         (case dict_pop ''hash'' (dict_of (parse_qsl env qs)) of
            Inl e \<Rightarrow> Inl e
          | Inr (hash_val, parsed_data) \<Rightarrow>
             (let secret_key = hmac_digest env ''WebAppData'' bot_token in
              if hmac_hexdigest env secret_key (data_check_string parsed_data) \<noteq> hash_val
              then Inl ValueError
              else (case dict_get parsed_data ''user'' of
                      Inl e \<Rightarrow> Inl e
                    | Inr u \<Rightarrow> (case json_loads env u of
                                  None \<Rightarrow> Inl JSONDecodeError
                                | Some tg_user \<Rightarrow> Inr tg_user)))))"

text \<open>The bare \<^verbatim>\<open>except\<close>: whatever the block raised becomes \<^verbatim>\<open>HTTPException(403, "Auth failed")\<close>.\<close>

definition validate_telegram_data :: "Env \<Rightarrow> string option \<Rightarrow> string \<Rightarrow> Failure + TgUser" where
  "validate_telegram_data env init_data bot_token =
     (case validate_try env init_data bot_token of
        Inl e \<Rightarrow> Inl (HTTPException 403 (Some ''Auth failed''))
      | Inr tg_user \<Rightarrow> Inr tg_user)"

section \<open>Queries\<close>

text \<open>
  \<^verbatim>\<open>scalar_one_or_none()\<close> on the rows a \<^verbatim>\<open>select ... where\<close> returns: no row is
  \<^verbatim>\<open>None\<close>, one row is that row, more rows raise.
\<close>

definition scalar_one_or_none :: "'a list \<Rightarrow> Failure + 'a option" where
  "scalar_one_or_none rows =
     (case rows of [] \<Rightarrow> Inr None
      | r # rest \<Rightarrow> (case rest of [] \<Rightarrow> Inr (Some r)
                     | _ # _ \<Rightarrow> Inl (Unhandled MultipleResultsFound)))"

definition user_by_telegram_id :: "DB \<Rightarrow> int \<Rightarrow> Failure + User option" where
  "user_by_telegram_id db tg = scalar_one_or_none (filter (\<lambda>u. telegram_id u = tg) (users db))"

text \<open>\<^verbatim>\<open>User.id == x\<close> where \<^verbatim>\<open>x\<close> may be the null of a task's foreign key: null equals no id.\<close>

definition user_by_id :: "DB \<Rightarrow> int option \<Rightarrow> Failure + User option" where
  "user_by_id db i = scalar_one_or_none (filter (\<lambda>u. Some (user_id u) = i) (users db))"

definition task_by_id :: "DB \<Rightarrow> int \<Rightarrow> Failure + Task option" where
  "task_by_id db i = scalar_one_or_none (filter (\<lambda>t. task_id t = i) (tasks db))"

text \<open>The key an insert generates (SQLite's rowid: one more than the largest in the table).\<close>

definition next_id :: "int list \<Rightarrow> int" where
  "next_id ids = fold max ids 0 + 1"

text \<open>\<^verbatim>\<open>commit()\<close> after attributes of a loaded row changed: the row with that key is rewritten.\<close>

definition put_user :: "User \<Rightarrow> DB \<Rightarrow> DB" where
  "put_user u db = db\<lparr>users := map (\<lambda>r. if user_id r = user_id u then u else r) (users db)\<rparr>"

definition put_task :: "Task \<Rightarrow> DB \<Rightarrow> DB" where
  "put_task t db = db\<lparr>tasks := map (\<lambda>r. if task_id r = task_id t then t else r) (tasks db)\<rparr>"

section \<open>Role directory (main.py, auth_user, cmd_start, update_user_role)\<close>

text \<open>
  \<^verbatim>\<open>str.strip()\<close> removes whitespace at both ends; the code points below 256 that
  \<^verbatim>\<open>str.isspace\<close> accepts are listed.
\<close>

definition py_isspace :: "char \<Rightarrow> bool" where
  "py_isspace c \<longleftrightarrow> c \<in> set [CHR 0x09, CHR 0x0A, CHR 0x0B, CHR 0x0C, CHR 0x0D, CHR 0x1C,
                                 CHR 0x1D, CHR 0x1E, CHR 0x1F, CHR 0x20, CHR 0x85, CHR 0xA0]"

definition strip :: "string \<Rightarrow> string" where
  "strip s = rev (dropWhile py_isspace (rev (dropWhile py_isspace s)))"

definition get_or_empty :: "string option \<Rightarrow> string" where
  "get_or_empty v = (case v of None \<Rightarrow> [] | Some s \<Rightarrow> s)"

definition display_name :: "TgUser \<Rightarrow> string" where
  "display_name tg_user =
     strip (get_or_empty (first_name tg_user) @ '' '' @ get_or_empty (last_name tg_user))"

text \<open>
  \<^verbatim>\<open>auth_user\<close> from line 70 on, for the identity claim the verifier returned. The result is
  the store after the request and the reply (the user) or the failure.
\<close>

definition auth_user_as :: "int \<Rightarrow> TgUser \<Rightarrow> DB \<Rightarrow> DB \<times> (Failure + User)" where
  "auth_user_as owner_id tg_user db =
     (let tid = tg_id tg_user; name = display_name tg_user in
      case user_by_telegram_id db tid of
        Inl e \<Rightarrow> (db, Inl e)
      | Inr None \<Rightarrow>
          (let user = \<lparr>user_id = next_id (map user_id (users db)), telegram_id = tid,
                       full_name = name, role = (if tid = owner_id then OWNER else WORKER)\<rparr>
           in (db\<lparr>users := users db @ [user]\<rparr>, Inr user))
      | Inr (Some found) \<Rightarrow>
          (let renamed = found\<lparr>full_name := name\<rparr>;
               user = (if tid = owner_id then renamed\<lparr>role := OWNER\<rparr> else renamed)
           in (put_user user db, Inr user)))"

definition auth_user :: "Env \<Rightarrow> string \<Rightarrow> DB \<Rightarrow> DB \<times> (Failure + User)" where
  "auth_user env initData db =
     (case validate_telegram_data env (Some initData) (BOT_TOKEN env) of
        Inl e \<Rightarrow> (db, Inl e)
      | Inr tg_user \<Rightarrow> auth_user_as (OWNER_ID env) tg_user db)"

text \<open>
  \<^verbatim>\<open>cmd_start\<close>, for \<^verbatim>\<open>message.from_user.id\<close> and \<^verbatim>\<open>message.from_user.full_name\<close>. The
  reply (a button opening the web app) does not depend on the store and is left out.
\<close>

definition cmd_start :: "int \<Rightarrow> int \<Rightarrow> string \<Rightarrow> DB \<Rightarrow> DB \<times> (Failure + unit)" where
  "cmd_start owner_id from_id from_full_name db =
     (case user_by_telegram_id db from_id of
        Inl e \<Rightarrow> (db, Inl e)
      | Inr (Some found) \<Rightarrow> (db, Inr ())
      | Inr None \<Rightarrow>
          (let user = \<lparr>user_id = next_id (map user_id (users db)), telegram_id = from_id,
                       full_name = from_full_name,
                       role = (if from_id = owner_id then OWNER else WORKER)\<rparr>
           in (db\<lparr>users := users db @ [user]\<rparr>, Inr ())))"

text \<open>\<^verbatim>\<open>update_user_role\<close> from line 93 on.\<close>

definition update_user_role_as ::
  "int \<Rightarrow> TgUser \<Rightarrow> int \<Rightarrow> UserRole \<Rightarrow> DB \<Rightarrow> DB \<times> (Failure + unit)" where
  "update_user_role_as owner_id tg_user target new_role db =
     (if tg_id tg_user \<noteq> owner_id then (db, Inl (HTTPException 403 (Some ''Only Owner'')))
      else (case user_by_id db (Some target) of
              Inl e \<Rightarrow> (db, Inl e)
            | Inr None \<Rightarrow> (db, Inl (HTTPException 400 None))
            | Inr (Some user) \<Rightarrow>
                if telegram_id user = owner_id then (db, Inl (HTTPException 400 None))
                else (put_user (user\<lparr>role := new_role\<rparr>) db, Inr ())))"

definition update_user_role ::
  "Env \<Rightarrow> string option \<Rightarrow> int \<Rightarrow> UserRole \<Rightarrow> DB \<Rightarrow> DB \<times> (Failure + unit)" where
  "update_user_role env header target new_role db =
     (case validate_telegram_data env header (BOT_TOKEN env) of
        Inl e \<Rightarrow> (db, Inl e)
      | Inr tg_user \<Rightarrow> update_user_role_as (OWNER_ID env) tg_user target new_role db)"

section \<open>Notifications\<close>

text \<open>
  \<^verbatim>\<open>asyncio.create_task(send_notify(tg_id, text))\<close> queues a message and does not wait for
  it; \<^verbatim>\<open>send_notify\<close> swallows every delivery error. A handler's reply lists what it queued:
  the recipient's telegram id and which of the four messages, with the values it formats.
\<close>

datatype Notice =
    NewTask string
  | TaskDisputed string "string option"
  | DisputeRuling string "TaskStatus option"
  | TaskCompleted string

definition notify_user :: "User option \<Rightarrow> Notice \<Rightarrow> (int \<times> Notice) list" where
  "notify_user who n = (case who of None \<Rightarrow> [] | Some u \<Rightarrow> [(telegram_id u, n)])"

section \<open>Task handlers (main.py, get_tasks, create_task, update_task)\<close>

record TaskView =
  view_id :: int
  view_title :: string
  view_description :: "string option"
  view_status :: "TaskStatus option"
  view_deadline :: "int option"
  view_assignee_name :: string
  view_is_mine :: bool
  view_is_locked :: bool
  view_dispute_reason :: "string option"

text \<open>The body of the \<^verbatim>\<open>for t in tasks\<close> loop of \<^verbatim>\<open>get_tasks\<close>, and the loop.\<close>

definition task_view :: "DB \<Rightarrow> User \<Rightarrow> Task \<Rightarrow> Failure + TaskView" where
  "task_view db user t =
     (case user_by_id db (assignee_id t) of
        Inl e \<Rightarrow> Inl e
      | Inr assignee \<Rightarrow>
          Inr \<lparr>view_id = task_id t, view_title = title t, view_description = description t,
               view_status = status t, view_deadline = deadline t,
               view_assignee_name = (case assignee of None \<Rightarrow> ''Unknown'' | Some a \<Rightarrow> full_name a),
               view_is_mine = (assignee_id t = Some (user_id user)),
               view_is_locked = is_locked t,
               view_dispute_reason =
                 (if role user \<noteq> WORKER \<or> assignee_id t = Some (user_id user)
                  then dispute_reason t else None)\<rparr>)"

fun task_views :: "DB \<Rightarrow> User \<Rightarrow> Task list \<Rightarrow> Failure + TaskView list" where
  "task_views db user [] = Inr []"
| "task_views db user (t # ts) =
     (case task_view db user t of
        Inl e \<Rightarrow> Inl e
      | Inr v \<Rightarrow> (case task_views db user ts of Inl e \<Rightarrow> Inl e | Inr vs \<Rightarrow> Inr (v # vs)))"

text \<open>
  \<^verbatim>\<open>get_tasks\<close> from line 104 on; \<open>flt\<close> is \<^verbatim>\<open>request.query_params.get("filter")\<close>.
  \<^verbatim>\<open>order_by(Task.deadline.asc())\<close> is a stable sort of the selected rows with the null
  deadline first (SQLite's order). On \<^verbatim>\<open>None\<close>, \<^verbatim>\<open>user.role\<close> raises.
\<close>

definition get_tasks_as :: "TgUser \<Rightarrow> string option \<Rightarrow> DB \<Rightarrow> Failure + TaskView list" where
  "get_tasks_as tg_user flt db =
     (case user_by_telegram_id db (tg_id tg_user) of
        Inl e \<Rightarrow> Inl e
      | Inr None \<Rightarrow> Inl (Unhandled AttributeError)
      | Inr (Some user) \<Rightarrow>
          (let selected = (if role user = WORKER \<or> flt = Some ''mine''
                           then filter (\<lambda>t. assignee_id t = Some (user_id user)) (tasks db)
                           else tasks db)
           in task_views db user (sort_key deadline selected)))"

definition get_tasks :: "Env \<Rightarrow> string option \<Rightarrow> string option \<Rightarrow> DB \<Rightarrow> Failure + TaskView list" where
  "get_tasks env header flt db =
     (case validate_telegram_data env header (BOT_TOKEN env) of
        Inl e \<Rightarrow> Inl e
      | Inr tg_user \<Rightarrow> get_tasks_as tg_user flt db)"

text \<open>
  \<^verbatim>\<open>create_task\<close> from line 123 on; \<open>now\<close> is the \<^verbatim>\<open>datetime.utcnow\<close> default of
  \<^verbatim>\<open>created_at\<close>. The row is committed before the assignee is looked up for the message.
\<close>

definition create_task_as ::
  "TgUser \<Rightarrow> TaskCreate \<Rightarrow> int \<Rightarrow> DB \<Rightarrow> DB \<times> (Failure + (int \<times> Notice) list)" where
  "create_task_as tg_user task_data now db =
     (case user_by_telegram_id db (tg_id tg_user) of
        Inl e \<Rightarrow> (db, Inl e)
      | Inr None \<Rightarrow> (db, Inl (Unhandled AttributeError))
      | Inr (Some creator) \<Rightarrow>
          if role creator \<notin> set [ADMIN, OWNER] then (db, Inl (HTTPException 403 None))
          else
            (let task = \<lparr>task_id = next_id (map task_id (tasks db)), title = new_title task_data,
                         description = new_description task_data, status = Some TODO,
                         dispute_reason = None, is_locked = False,
                         creator_id = Some (user_id creator),
                         assignee_id = Some (new_assignee_id task_data),
                         deadline = new_deadline task_data, created_at = now\<rparr>;
                 db' = db\<lparr>tasks := tasks db @ [task]\<rparr>
             in case user_by_id db' (Some (new_assignee_id task_data)) of
                  Inl e \<Rightarrow> (db', Inl e)
                | Inr assignee \<Rightarrow> (db', Inr (notify_user assignee (NewTask (new_title task_data))))))"

definition create_task ::
  "Env \<Rightarrow> string option \<Rightarrow> TaskCreate \<Rightarrow> int \<Rightarrow> DB \<Rightarrow> DB \<times> (Failure + (int \<times> Notice) list)" where
  "create_task env header task_data now db =
     (case validate_telegram_data env header (BOT_TOKEN env) of
        Inl e \<Rightarrow> (db, Inl e)
      | Inr tg_user \<Rightarrow> create_task_as tg_user task_data now db)"

text \<open>
  The loop \<^verbatim>\<open>for k, v in task_data.dict(exclude_unset=True).items()\<close> of the privileged
  update: every field the body gave, \<^verbatim>\<open>dispute_reason\<close> apart, is assigned, null included.
  A null title reaches the \<^verbatim>\<open>nullable=False\<close> column at the commit, which then raises.
\<close>

definition set_given_fields :: "TaskUpdate \<Rightarrow> Task \<Rightarrow> PyException + Task" where
  "set_given_fields task_data task =
     (let t1 = (case upd_status task_data of Unset \<Rightarrow> task | Given v \<Rightarrow> task\<lparr>status := v\<rparr>);
          t2 = (case upd_description task_data of Unset \<Rightarrow> t1 | Given v \<Rightarrow> t1\<lparr>description := v\<rparr>);
          t3 = (case upd_deadline task_data of Unset \<Rightarrow> t2 | Given v \<Rightarrow> t2\<lparr>deadline := v\<rparr>)
      in case upd_title task_data of
           Unset \<Rightarrow> Inr t3
         | Given None \<Rightarrow> Inl IntegrityError
         | Given (Some v) \<Rightarrow> Inr (t3\<lparr>title := v\<rparr>))"

text \<open>The three branches of \<^verbatim>\<open>update_task\<close> (lines 149 to 171), each ending at the commit.\<close>

definition raise_dispute ::
  "User \<Rightarrow> Task \<Rightarrow> User option \<Rightarrow> TaskUpdate \<Rightarrow> DB \<Rightarrow> DB \<times> (Failure + (int \<times> Notice) list)" where
  "raise_dispute user task creator task_data db =
     (if assignee_id task \<noteq> Some (user_id user) then (db, Inl (HTTPException 403 None))
      else if is_locked task then (db, Inl (HTTPException 400 None))
      else (put_task (task\<lparr>status := Some DISPUTED,
                          dispute_reason := fval (upd_dispute_reason task_data)\<rparr>) db,
            Inr (notify_user creator
                   (TaskDisputed (title task) (fval (upd_dispute_reason task_data))))))"

definition resolve_dispute ::
  "User \<Rightarrow> Task \<Rightarrow> User option \<Rightarrow> TaskUpdate \<Rightarrow> DB \<Rightarrow> DB \<times> (Failure + (int \<times> Notice) list)" where
  "resolve_dispute user task assignee task_data db =
     (if \<not> (role user = OWNER) then (db, Inl (HTTPException 403 None))
      else
        (let t1 = task\<lparr>status := fval (upd_status task_data), dispute_reason := None\<rparr>;
             t2 = (if fval (upd_status task_data) \<noteq> Some DONE then t1\<lparr>is_locked := True\<rparr> else t1)
         in (put_task t2 db,
             Inr (notify_user assignee (DisputeRuling (title t2) (fval (upd_status task_data)))))))"

definition standard_update ::
  "User \<Rightarrow> Task \<Rightarrow> User option \<Rightarrow> TaskUpdate \<Rightarrow> DB \<Rightarrow> DB \<times> (Failure + (int \<times> Notice) list)" where
  "standard_update user task creator task_data db =
     (if role user = WORKER then
        (if assignee_id task \<noteq> Some (user_id user) then (db, Inl (HTTPException 403 None))
         else if fval (upd_status task_data) \<noteq> None then
           (put_task (task\<lparr>status := fval (upd_status task_data)\<rparr>) db,
            Inr (if fval (upd_status task_data) = Some DONE
                 then notify_user creator (TaskCompleted (title task)) else []))
         else (put_task task db, Inr []))
      else
        (case set_given_fields task_data task of
           Inl e \<Rightarrow> (db, Inl (Unhandled e))
         | Inr t \<Rightarrow> (put_task t db, Inr [])))"

text \<open>
  \<^verbatim>\<open>update_task\<close> from line 139 on. The four lookups come first and \<^verbatim>\<open>404\<close> is raised
  before \<^verbatim>\<open>user.role\<close> is read at line 147, where a missing user raises.
\<close>

definition update_task_as ::
  "TgUser \<Rightarrow> int \<Rightarrow> TaskUpdate \<Rightarrow> DB \<Rightarrow> DB \<times> (Failure + (int \<times> Notice) list)" where
  "update_task_as tg_user tid task_data db =
     (case user_by_telegram_id db (tg_id tg_user) of
        Inl e \<Rightarrow> (db, Inl e)
      | Inr user_opt \<Rightarrow>
     (case task_by_id db tid of
        Inl e \<Rightarrow> (db, Inl e)
      | Inr None \<Rightarrow> (db, Inl (HTTPException 404 None))
      | Inr (Some task) \<Rightarrow>
     (case user_by_id db (creator_id task) of
        Inl e \<Rightarrow> (db, Inl e)
      | Inr creator \<Rightarrow>
     (case user_by_id db (assignee_id task) of
        Inl e \<Rightarrow> (db, Inl e)
      | Inr assignee \<Rightarrow>
     (case user_opt of
        None \<Rightarrow> (db, Inl (Unhandled AttributeError))
      | Some user \<Rightarrow>
          if fval (upd_status task_data) = Some DISPUTED
          then raise_dispute user task creator task_data db
          else if status task = Some DISPUTED \<and> fval (upd_status task_data) \<noteq> None
          then resolve_dispute user task assignee task_data db
          else standard_update user task creator task_data db)))))"

definition update_task ::
  "Env \<Rightarrow> string option \<Rightarrow> int \<Rightarrow> TaskUpdate \<Rightarrow> DB \<Rightarrow> DB \<times> (Failure + (int \<times> Notice) list)" where
  "update_task env header tid task_data db =
     (case validate_telegram_data env header (BOT_TOKEN env) of
        Inl e \<Rightarrow> (db, Inl e)
      | Inr tg_user \<Rightarrow> update_task_as tg_user tid task_data db)"

section \<open>Reachable stores\<close>

text \<open>A dispute reason is populated when it is present and not the empty string.\<close>

definition populated :: "string option \<Rightarrow> bool" where
  "populated r = (case r of None \<Rightarrow> False | Some s \<Rightarrow> s \<noteq> [])"

text \<open>
  A request body that gives no explicit null for the status and, when it asks for status
  disputed, carries a populated dispute reason.
\<close>

definition reasoned_request :: "TaskUpdate \<Rightarrow> bool" where
  "reasoned_request task_data \<longleftrightarrow>
     upd_status task_data \<noteq> Given None \<and>
     (if fval (upd_status task_data) = Some DISPUTED
      then populated (fval (upd_dispute_reason task_data)) else True)"

text \<open>
  The stores the handlers that write users or tasks can produce from the empty store, for
  verified identities (a request whose token is refused leaves the store as it is) and for
  task updates whose bodies satisfy \<open>admitted\<close>. A step is taken whether the request
  succeeds or fails.
\<close>

inductive reachable :: "(TaskUpdate \<Rightarrow> bool) \<Rightarrow> int \<Rightarrow> DB \<Rightarrow> bool"
  for admitted :: "TaskUpdate \<Rightarrow> bool" and owner_id :: int where
  start_up: "reachable admitted owner_id empty_db"
| after_auth: "reachable admitted owner_id db \<Longrightarrow>
     reachable admitted owner_id (fst (auth_user_as owner_id tg_user db))"
| after_start: "reachable admitted owner_id db \<Longrightarrow>
     reachable admitted owner_id (fst (cmd_start owner_id from_id from_full_name db))"
| after_role: "reachable admitted owner_id db \<Longrightarrow>
     reachable admitted owner_id (fst (update_user_role_as owner_id tg_user target new_role db))"
| after_create: "reachable admitted owner_id db \<Longrightarrow>
     reachable admitted owner_id (fst (create_task_as tg_user new_task now db))"
| after_update: "reachable admitted owner_id db \<Longrightarrow> admitted task_data \<Longrightarrow>
     reachable admitted owner_id (fst (update_task_as tg_user tid task_data db))"

text \<open>The invariant of a task row: a populated dispute reason exactly on a disputed task.\<close>

definition reason_tracks_status :: "Task \<Rightarrow> bool" where
  "reason_tracks_status t \<longleftrightarrow> (populated (dispute_reason t) \<longleftrightarrow> status t = Some DISPUTED)"

section \<open>Example stores and requests\<close>

text \<open>
  Concrete rows, identity claims and request bodies on which the theorems below are
  instantiated: an owner and a worker, and one task created by the owner.
\<close>

definition owner_row :: User where
  "owner_row = \<lparr>user_id = 1, telegram_id = 100, full_name = ''Olga Owner'', role = OWNER\<rparr>"

definition worker_row :: User where
  "worker_row = \<lparr>user_id = 2, telegram_id = 200, full_name = ''Wim Worker'', role = WORKER\<rparr>"

definition owner_claim :: TgUser where
  "owner_claim = \<lparr>tg_id = 100, first_name = Some ''Olga'', last_name = Some ''Owner''\<rparr>"

definition worker_claim :: TgUser where
  "worker_claim = \<lparr>tg_id = 200, first_name = Some ''Wim'', last_name = Some ''Worker''\<rparr>"

definition example_task :: "TaskStatus \<Rightarrow> string option \<Rightarrow> bool \<Rightarrow> int \<Rightarrow> Task" where
  "example_task st reason locked assignee =
     \<lparr>task_id = 1, title = ''T1'', description = Some [], status = Some st,
      dispute_reason = reason, is_locked = locked, creator_id = Some 1,
      assignee_id = Some assignee, deadline = None, created_at = 0\<rparr>"

definition example_db :: "Task list \<Rightarrow> DB" where
  "example_db ts = \<lparr>users = [owner_row, worker_row], tasks = ts\<rparr>"

definition status_request :: "TaskStatus \<Rightarrow> TaskUpdate" where
  "status_request st =
     \<lparr>upd_status = Given (Some st), upd_title = Unset, upd_description = Unset,
      upd_deadline = Unset, upd_dispute_reason = Unset\<rparr>"

definition full_request :: "TaskStatus \<Rightarrow> string \<Rightarrow> TaskUpdate" where
  "full_request st reason =
     \<lparr>upd_status = Given (Some st), upd_title = Given (Some ''Renamed''),
      upd_description = Given (Some ''changed''), upd_deadline = Given (Some 7),
      upd_dispute_reason = Given (Some reason)\<rparr>"

text \<open>
  Stand-ins for the library functions, on which the verifier is evaluated: the query string
  \<^verbatim>\<open>nohash\<close> parses to pairs without a signature, \<^verbatim>\<open>forged\<close> to pairs whose signature
  differs from the digest, any other to pairs whose signature equals it.
\<close>

definition stub_env :: Env where
  "stub_env =
     \<lparr>parse_qsl = (\<lambda>qs. if qs = ''nohash'' then [(''user'', ''u'')]
                         else if qs = ''forged'' then [(''user'', ''u''), (''hash'', ''x'')]
                         else [(''user'', ''u''), (''hash'', ''h'')]),
      hmac_digest = (\<lambda>key msg. key @ msg),
      hmac_hexdigest = (\<lambda>key msg. ''h''),
      json_loads = (\<lambda>s. if s = ''u'' then Some \<lparr>tg_id = 300, first_name = Some ''Ann'', last_name = None\<rparr> else None),
      BOT_TOKEN = ''token'', OWNER_ID = 100\<rparr>"

lemmas example_defs = owner_row_def worker_row_def owner_claim_def worker_claim_def
  example_task_def example_db_def status_request_def full_request_def

lemmas query_defs = user_by_telegram_id_def user_by_id_def task_by_id_def
  scalar_one_or_none_def put_task_def put_user_def notify_user_def

section \<open>Facts about the queries\<close>

lemma filter_singletonD:
  assumes "filter P xs = [x]"
  shows "x \<in> set xs \<and> P x"
proof -
  have "x \<in> set (filter P xs)" using assms by simp
  then show ?thesis by simp
qed

lemma scalar_one_or_none_Some:
  assumes "scalar_one_or_none (filter P xs) = Inr (Some x)"
  shows "x \<in> set xs \<and> P x \<and> filter P xs = [x]"
proof -
  from assms have "filter P xs = [x]"
    unfolding scalar_one_or_none_def by (simp split: list.splits)
  then show ?thesis using filter_singletonD by fastforce
qed

lemma scalar_one_or_none_None:
  "scalar_one_or_none rows = Inr None \<longleftrightarrow> rows = []"
  unfolding scalar_one_or_none_def by (simp split: list.splits)

lemma filter_key_distinct:
  "distinct (map key xs) \<Longrightarrow> length (filter (\<lambda>x. key x = k) xs) \<le> 1"
proof (induction xs)
  case Nil
  then show ?case by simp
next
  case (Cons a xs)
  show ?case
  proof (cases "key a = k")
    case True
    with Cons.prems have "\<forall>x\<in>set xs. key x \<noteq> k" by (auto simp: image_iff)
    then have "filter (\<lambda>x. key x = k) xs = []" by (simp add: filter_empty_conv)
    with True show ?thesis by simp
  next
    case False
    with Cons show ?thesis by simp
  qed
qed

lemma scalar_one_or_none_short:
  "length rows \<le> 1 \<Longrightarrow> \<exists>r. scalar_one_or_none rows = Inr r"
  unfolding scalar_one_or_none_def by (auto split: list.splits)

lemma user_by_id_total:
  assumes "distinct (map user_id (users db))"
  shows "\<exists>r. user_by_id db i = Inr r"
proof (cases i)
  case None
  then show ?thesis by (simp add: user_by_id_def scalar_one_or_none_def)
next
  case (Some k)
  have "filter (\<lambda>u. Some (user_id u) = i) (users db) = filter (\<lambda>u. user_id u = k) (users db)"
    using Some by (intro filter_cong) auto
  then show ?thesis
    unfolding user_by_id_def
    using scalar_one_or_none_short[OF filter_key_distinct[OF assms, of k]] by simp
qed

lemma filter_map_replace:
  assumes "distinct (map key xs)" "filter P xs = [x]" "P y" "key y = key x"
  shows "filter P (map (\<lambda>r. if key r = key x then y else r) xs) = [y]"
  using assms
proof (induction xs)
  case Nil
  then show ?case by simp
next
  case (Cons a xs)
  show ?case
  proof (cases "P a")
    case True
    with Cons.prems have ax: "a = x" and rest: "filter P xs = []" by auto
    from Cons.prems(1) ax have "\<forall>r\<in>set xs. key r \<noteq> key x" by (auto simp: image_iff)
    then have "map (\<lambda>r. if key r = key x then y else r) xs = xs" by (simp add: map_idI)
    with True ax rest Cons.prems(3) show ?thesis by simp
  next
    case False
    with Cons.prems have rest: "filter P xs = [x]" by simp
    then have "x \<in> set xs" using filter_singletonD by fastforce
    with Cons.prems(1) have "key a \<noteq> key x" by (auto simp: image_iff)
    with False rest Cons show ?thesis by simp
  qed
qed

lemma task_by_id_put_task:
  assumes "distinct (map task_id (tasks db))" "task_by_id db tid = Inr (Some t)" "task_id t' = tid"
  shows "task_by_id (put_task t' db) tid = Inr (Some t')"
proof -
  from assms(2) have f: "filter (\<lambda>r. task_id r = tid) (tasks db) = [t]" and k: "task_id t = tid"
    unfolding task_by_id_def using scalar_one_or_none_Some by fastforce+
  have "filter (\<lambda>r. task_id r = tid) (map (\<lambda>r. if task_id r = task_id t then t' else r) (tasks db)) = [t']"
    using filter_map_replace[OF assms(1) f, of t'] assms(3) k by simp
  then show ?thesis
    using assms(3) k by (simp add: task_by_id_def put_task_def scalar_one_or_none_def)
qed

lemma user_lookups_total:
  assumes "distinct (map user_id (users db))"
  obtains c a where "user_by_id db i = Inr c" "user_by_id db j = Inr a"
  using user_by_id_total[OF assms] by blast

lemma task_by_id_key:
  assumes "task_by_id db tid = Inr (Some task)"
  shows "task_id task = tid" and "task \<in> set (tasks db)"
  using assms scalar_one_or_none_Some unfolding task_by_id_def by fastforce+

section \<open>Task lifecycle: resolving a dispute\<close>

text \<open>
  C1, as the code has it. An update by a requester whose stored role is owner, on a task
  whose status is disputed, that requests a status other than disputed, succeeds; afterwards
  the task's row has the requested status, no dispute reason, and is locked unless the
  requested status is done, in which case the lock flag keeps its value. The rest of the row
  is unchanged. (The store is one in which primary keys are unique.)
\<close>

theorem resolve_dispute_effect:
  assumes wf: "distinct (map user_id (users db))" "distinct (map task_id (tasks db))"
    and user: "user_by_telegram_id db (tg_id tg_user) = Inr (Some user)" "role user = OWNER"
    and task: "task_by_id db tid = Inr (Some task)" "status task = Some DISPUTED"
    and req: "fval (upd_status task_data) = Some s" "s \<noteq> DISPUTED"
  shows "(\<exists>notes. snd (update_task_as tg_user tid task_data db) = Inr notes) \<and>
         task_by_id (fst (update_task_as tg_user tid task_data db)) tid =
           Inr (Some (task\<lparr>status := Some s, dispute_reason := None,
                            is_locked := (s \<noteq> DONE \<or> is_locked task)\<rparr>))"
proof -
  obtain c a where l: "user_by_id db (creator_id task) = Inr c"
      "user_by_id db (assignee_id task) = Inr a"
    using user_lookups_total[OF wf(1)] by blast
  let ?t = "task\<lparr>status := Some s, dispute_reason := None,
                  is_locked := (s \<noteq> DONE \<or> is_locked task)\<rparr>"
  have r: "update_task_as tg_user tid task_data db =
        (put_task ?t db, Inr (notify_user a (DisputeRuling (title task) (Some s))))"
    using user task req l
    by (cases "s = DONE") (simp_all add: update_task_as_def resolve_dispute_def Let_def)
  show ?thesis
    using r task_by_id_put_task[OF wf(2) task(1), of ?t] task_by_id_key(1)[OF task(1)] by simp
qed

text \<open>
  The theorem at two requests of the owner on the worker's disputed, unlocked task: a ruling
  of \<open>IN_PROGRESS\<close> locks it, a ruling of \<open>DONE\<close> leaves it unlocked.
\<close>

theorem resolve_dispute_effect_witness:
  "task_by_id (fst (update_task_as owner_claim 1 (full_request IN_PROGRESS ''no'')
       (example_db [example_task DISPUTED (Some ''blocked'') False 2]))) 1 =
     Inr (Some (example_task IN_PROGRESS None True 2)) \<and>
   task_by_id (fst (update_task_as owner_claim 1 (status_request DONE)
       (example_db [example_task DISPUTED (Some ''blocked'') False 2]))) 1 =
     Inr (Some (example_task DONE None False 2))"
  using resolve_dispute_effect [of "example_db [example_task DISPUTED (Some ''blocked'') False 2]"
      owner_claim owner_row 1 "example_task DISPUTED (Some ''blocked'') False 2"
      "full_request IN_PROGRESS ''no''" IN_PROGRESS]
    resolve_dispute_effect [of "example_db [example_task DISPUTED (Some ''blocked'') False 2]"
      owner_claim owner_row 1 "example_task DISPUTED (Some ''blocked'') False 2"
      "status_request DONE" DONE]
  by (simp add: example_defs query_defs)

text \<open>
  C1 as stated fails when the requested status is itself disputed: the first branch of
  \<^verbatim>\<open>update_task\<close> is taken. Here the owner is the assignee of a disputed, unlocked task
  and asks for disputed again: the request succeeds, the dispute reason is the one supplied
  (not cleared) and the task is not locked.
\<close>

theorem resolve_dispute_counterexample:
  "role owner_row = OWNER \<and>
   user_by_telegram_id (example_db [example_task DISPUTED (Some ''blocked'') False 1]) (tg_id owner_claim)
     = Inr (Some owner_row) \<and>
   update_task_as owner_claim 1 (full_request DISPUTED ''again'')
       (example_db [example_task DISPUTED (Some ''blocked'') False 1]) =
     (example_db [example_task DISPUTED (Some ''again'') False 1],
      Inr [(100, TaskDisputed ''T1'' (Some ''again''))])"
  by (simp add: example_defs query_defs update_task_as_def raise_dispute_def)

section \<open>Task lifecycle: raising a dispute\<close>

text \<open>
  C2. An update that requests status disputed, by a requester who has a user record, on an
  existing task: when the requester is not the task's assignee it fails with
  \<open>Forbidden\<close> (403); when the requester is the assignee and the task is locked it fails
  with \<open>InvalidState\<close> (400). In both cases the store after the request is the store before it.
\<close>

theorem raise_dispute_rejections:
  assumes wf: "distinct (map user_id (users db))"
    and user: "user_by_telegram_id db (tg_id tg_user) = Inr (Some user)"
    and task: "task_by_id db tid = Inr (Some task)"
    and req: "fval (upd_status task_data) = Some DISPUTED"
    and bad: "assignee_id task \<noteq> Some (user_id user) \<or> is_locked task"
  shows "update_task_as tg_user tid task_data db =
           (db, Inl (if assignee_id task \<noteq> Some (user_id user) then Forbidden else InvalidState))"
proof -
  obtain c a where l: "user_by_id db (creator_id task) = Inr c"
      "user_by_id db (assignee_id task) = Inr a"
    using user_lookups_total[OF wf(1)] by blast
  show ?thesis
    using user task req l bad
    by (auto simp: update_task_as_def raise_dispute_def Forbidden_def InvalidState_def)
qed

text \<open>
  The theorem at the owner disputing the worker's task (not the assignee), and at the worker
  disputing a locked task of their own.
\<close>

theorem raise_dispute_rejections_witness:
  "update_task_as owner_claim 1 (full_request DISPUTED ''late'')
       (example_db [example_task TODO None False 2]) =
     (example_db [example_task TODO None False 2], Inl Forbidden) \<and>
   update_task_as worker_claim 1 (full_request DISPUTED ''late'')
       (example_db [example_task IN_PROGRESS None True 2]) =
     (example_db [example_task IN_PROGRESS None True 2], Inl InvalidState)"
  using raise_dispute_rejections [of "example_db [example_task TODO None False 2]"
      owner_claim owner_row 1 "example_task TODO None False 2" "full_request DISPUTED ''late''"]
    raise_dispute_rejections [of "example_db [example_task IN_PROGRESS None True 2]"
      worker_claim worker_row 1 "example_task IN_PROGRESS None True 2"
      "full_request DISPUTED ''late''"]
  by (simp add: example_defs query_defs)

section \<open>Task lifecycle: the worker's update\<close>

text \<open>
  C3. An update by a requester whose stored role is worker and who is the task's assignee,
  when neither the first branch (requested status disputed) nor the second (task disputed and
  a status requested) applies: the request succeeds, whatever title, description, deadline or
  dispute reason the body carries; the store afterwards is the store before with this task's
  row changed in its status only, to the requested status if one was given.
\<close>

theorem worker_update_only_status:
  assumes wf: "distinct (map user_id (users db))" "distinct (map task_id (tasks db))"
    and user: "user_by_telegram_id db (tg_id tg_user) = Inr (Some user)" "role user = WORKER"
    and task: "task_by_id db tid = Inr (Some task)" "assignee_id task = Some (user_id user)"
    and r1: "fval (upd_status task_data) \<noteq> Some DISPUTED"
    and r2: "\<not> (status task = Some DISPUTED \<and> fval (upd_status task_data) \<noteq> None)"
  shows "(\<exists>notes. snd (update_task_as tg_user tid task_data db) = Inr notes) \<and>
         fst (update_task_as tg_user tid task_data db) =
           put_task (task\<lparr>status := (case fval (upd_status task_data) of
                                         None \<Rightarrow> status task | Some s \<Rightarrow> Some s)\<rparr>) db \<and>
         task_by_id (fst (update_task_as tg_user tid task_data db)) tid =
           Inr (Some (task\<lparr>status := (case fval (upd_status task_data) of
                                         None \<Rightarrow> status task | Some s \<Rightarrow> Some s)\<rparr>))"
proof -
  obtain c a where l: "user_by_id db (creator_id task) = Inr c"
      "user_by_id db (assignee_id task) = Inr a"
    using user_lookups_total[OF wf(1)] by blast
  let ?t = "task\<lparr>status := (case fval (upd_status task_data) of
                                None \<Rightarrow> status task | Some s \<Rightarrow> Some s)\<rparr>"
  have r: "\<exists>notes. update_task_as tg_user tid task_data db = (put_task ?t db, Inr notes)"
    using user task r1 r2 l
    by (cases "fval (upd_status task_data)")
       (auto simp: update_task_as_def standard_update_def)
  show ?thesis
    using r task_by_id_put_task[OF wf(2) task(1), of ?t] task_by_id_key(1)[OF task(1)] by auto
qed

text \<open>
  The theorem at a worker's request that carries a new title, description, deadline and
  dispute reason besides the status \<open>DONE\<close>: only the status of the stored row changes.
\<close>

theorem worker_update_only_status_witness:
  "update_task_as worker_claim 1 (full_request DONE ''because'')
       (example_db [example_task IN_PROGRESS None False 2]) =
     (example_db [example_task DONE None False 2], Inr [(100, TaskCompleted ''T1'')])"
  using worker_update_only_status [of "example_db [example_task IN_PROGRESS None False 2]"
      worker_claim worker_row 1 "example_task IN_PROGRESS None False 2"
      "full_request DONE ''because''"]
  by (simp add: example_defs query_defs update_task_as_def standard_update_def)

lemma user_by_telegram_id_put_user:
  assumes "distinct (map user_id (users db))"
    and "user_by_telegram_id db tg = Inr (Some found)"
    and "telegram_id u = tg" "user_id u = user_id found"
  shows "user_by_telegram_id (put_user u db) tg = Inr (Some u)"
proof -
  from assms(2) have f: "filter (\<lambda>r. telegram_id r = tg) (users db) = [found]"
    unfolding user_by_telegram_id_def using scalar_one_or_none_Some by fastforce
  have "filter (\<lambda>r. telegram_id r = tg)
          (map (\<lambda>r. if user_id r = user_id found then u else r) (users db)) = [u]"
    using filter_map_replace[OF assms(1) f, of u] assms(3,4) by simp
  then show ?thesis
    using assms(4) by (simp add: user_by_telegram_id_def put_user_def scalar_one_or_none_def)
qed

section \<open>Role directory: the owner identity\<close>

text \<open>
  C4. \<^verbatim>\<open>auth_user\<close> for an identity whose external id is the configured owner identity, on
  a store with unique primary keys in which the lookup by external id gives no row or one:
  the request succeeds, and the user it returns, which is the row then stored for that
  external id, has role owner and the display name computed from the token's claim, whether
  the row existed before or not and whatever role it had.
\<close>

theorem owner_identity_forced:
  assumes wf: "distinct (map user_id (users db))"
    and own: "tg_id tg_user = owner_id"
    and look: "user_by_telegram_id db owner_id = Inr found"
  shows "\<exists>u. snd (auth_user_as owner_id tg_user db) = Inr u \<and>
             role u = OWNER \<and> full_name u = display_name tg_user \<and> telegram_id u = owner_id \<and>
             user_by_telegram_id (fst (auth_user_as owner_id tg_user db)) owner_id = Inr (Some u)"
proof (cases found)
  case None
  then have e: "filter (\<lambda>u. telegram_id u = owner_id) (users db) = []"
    using look scalar_one_or_none_None unfolding user_by_telegram_id_def by blast
  show ?thesis
    using None look own e
    by (simp add: auth_user_as_def Let_def user_by_telegram_id_def scalar_one_or_none_def)
next
  case (Some f)
  let ?u = "f\<lparr>full_name := display_name tg_user, role := OWNER\<rparr>"
  have tg: "telegram_id f = owner_id"
    using look Some scalar_one_or_none_Some unfolding user_by_telegram_id_def by fastforce
  have r: "auth_user_as owner_id tg_user db = (put_user ?u db, Inr ?u)"
    using Some look own by (simp add: auth_user_as_def Let_def)
  have "user_by_telegram_id (put_user ?u db) owner_id = Inr (Some ?u)"
    using user_by_telegram_id_put_user[OF wf, of owner_id f ?u] look Some tg by simp
  then show ?thesis using r tg by simp
qed

text \<open>
  The theorem where the owner identity is 200 and its row is stored with role worker (the
  role is forced back to owner), and where the owner identity 300 has no row yet.
\<close>

theorem owner_identity_forced_witness:
  "snd (auth_user_as 200 worker_claim (example_db [])) =
     Inr (worker_row\<lparr>role := OWNER\<rparr>) \<and>
   snd (auth_user_as 300 \<lparr>tg_id = 300, first_name = Some ''Ann'', last_name = None\<rparr>
          (example_db [])) =
     Inr \<lparr>user_id = 3, telegram_id = 300, full_name = ''Ann'', role = OWNER\<rparr>"
  using owner_identity_forced [of "example_db []" worker_claim 200 "Some worker_row"]
    owner_identity_forced [of "example_db []"
      "\<lparr>tg_id = 300, first_name = Some ''Ann'', last_name = None\<rparr>" 300 None]
  by (simp add: example_defs query_defs auth_user_as_def display_name_def strip_def py_isspace_def
        get_or_empty_def next_id_def Let_def)

section \<open>Role directory: who may change a role\<close>

text \<open>
  C6, as the code has it. \<^verbatim>\<open>update_user_role\<close> never reads the acting user's row: the
  request is refused with 403 \<^verbatim>\<open>Only Owner\<close> exactly when the external id of the verified
  identity differs from the configured owner identity, whatever roles the store holds.
\<close>

theorem role_gate_is_owner_identity:
  "snd (update_user_role_as owner_id tg_user target new_role db) = Inl OnlyOwner
     \<longleftrightarrow> tg_id tg_user \<noteq> owner_id"
  by (auto simp: update_user_role_as_def OnlyOwner_def user_by_id_def scalar_one_or_none_def
        split: sum.splits option.splits list.splits)

text \<open>The theorem at the worker's and at the owner's request to make user 2 an admin.\<close>

theorem role_gate_is_owner_identity_witness:
  "snd (update_user_role_as 100 worker_claim 2 ADMIN (example_db [])) = Inl OnlyOwner \<and>
   snd (update_user_role_as 100 owner_claim 2 ADMIN (example_db [])) \<noteq> Inl OnlyOwner"
  using role_gate_is_owner_identity [of 100 worker_claim 2 ADMIN "example_db []"]
    role_gate_is_owner_identity [of 100 owner_claim 2 ADMIN "example_db []"]
  by (simp add: example_defs)

text \<open>
  C6 as stated fails: the configured owner (identity 100) gives user 2 the role owner; user 2,
  whose stored role is now owner, asks for a role change and is refused.
\<close>

theorem role_gate_counterexample:
  "update_user_role_as 100 owner_claim 2 OWNER (example_db []) =
     (\<lparr>users = [owner_row, worker_row\<lparr>role := OWNER\<rparr>], tasks = []\<rparr>, Inr ()) \<and>
   user_by_telegram_id \<lparr>users = [owner_row, worker_row\<lparr>role := OWNER\<rparr>], tasks = []\<rparr>
       (tg_id worker_claim) = Inr (Some (worker_row\<lparr>role := OWNER\<rparr>)) \<and>
   role (worker_row\<lparr>role := OWNER\<rparr>) = OWNER \<and>
   update_user_role_as 100 worker_claim 1 WORKER
       \<lparr>users = [owner_row, worker_row\<lparr>role := OWNER\<rparr>], tasks = []\<rparr> =
     (\<lparr>users = [owner_row, worker_row\<lparr>role := OWNER\<rparr>], tasks = []\<rparr>, Inl OnlyOwner)"
  by (simp add: example_defs query_defs update_user_role_as_def OnlyOwner_def)

lemma task_views_ok:
  assumes "distinct (map user_id (users db))"
  shows "\<exists>vs. task_views db user ts = Inr vs \<and> map view_id vs = map task_id ts \<and>
              map view_is_mine vs = map (\<lambda>t. assignee_id t = Some (user_id user)) ts"
proof (induction ts)
  case Nil
  then show ?case by simp
next
  case (Cons t ts)
  obtain a where a: "user_by_id db (assignee_id t) = Inr a"
    using user_by_id_total[OF assms] by blast
  from Cons obtain vs where vs: "task_views db user ts = Inr vs" "map view_id vs = map task_id ts"
      "map view_is_mine vs = map (\<lambda>t. assignee_id t = Some (user_id user)) ts"
    by blast
  show ?case using a vs by (simp add: task_view_def)
qed

section \<open>Task listing for a worker\<close>

text \<open>
  C7. \<^verbatim>\<open>get_tasks\<close> for a requester whose stored role is worker, on a store with unique
  user keys, whatever the \<^verbatim>\<open>filter\<close> query parameter is: the request succeeds, the
  entries returned are, in deadline order, exactly the tasks whose assignee is that user, and
  every entry has \<^verbatim>\<open>is_mine\<close> true.
\<close>

theorem worker_sees_own_tasks:
  assumes wf: "distinct (map user_id (users db))"
    and user: "user_by_telegram_id db (tg_id tg_user) = Inr (Some user)" "role user = WORKER"
  shows "\<exists>views. get_tasks_as tg_user flt db = Inr views \<and>
           map view_id views =
             map task_id (sort_key deadline
               (filter (\<lambda>t. assignee_id t = Some (user_id user)) (tasks db))) \<and>
           (\<forall>v \<in> set views. view_is_mine v)"
proof -
  let ?mine = "sort_key deadline (filter (\<lambda>t. assignee_id t = Some (user_id user)) (tasks db))"
  obtain vs where vs: "task_views db user ?mine = Inr vs" "map view_id vs = map task_id ?mine"
      "map view_is_mine vs = map (\<lambda>t. assignee_id t = Some (user_id user)) ?mine"
    using task_views_ok[OF wf] by blast
  have "\<forall>t \<in> set ?mine. assignee_id t = Some (user_id user)" by simp
  then have "map view_is_mine vs = map (\<lambda>t. True) ?mine" using vs(3) by simp
  then have "set (map view_is_mine vs) \<subseteq> {True}" by auto
  then have m: "\<forall>v \<in> set vs. view_is_mine v" by auto
  have "get_tasks_as tg_user flt db = Inr vs"
    using user vs(1) by (simp add: get_tasks_as_def)
  then show ?thesis using vs(2) m by blast
qed

text \<open>
  The theorem at the worker, with two tasks of their own (1 and 3) and one of the owner's
  (2), without a filter and with a filter other than \<^verbatim>\<open>mine\<close>.
\<close>

theorem worker_sees_own_tasks_witness:
  "map_sum id (map view_id) (get_tasks_as worker_claim None
      (example_db [example_task TODO None False 2,
                   (example_task TODO None False 1)\<lparr>task_id := 2\<rparr>,
                   (example_task DONE None False 2)\<lparr>task_id := 3, deadline := Some 5\<rparr>])) = Inr [1, 3] \<and>
   map_sum id (map view_is_mine) (get_tasks_as worker_claim (Some ''all'')
      (example_db [example_task TODO None False 2,
                   (example_task TODO None False 1)\<lparr>task_id := 2\<rparr>,
                   (example_task DONE None False 2)\<lparr>task_id := 3, deadline := Some 5\<rparr>])) = Inr [True, True]"
  using worker_sees_own_tasks [of "example_db [example_task TODO None False 2,
                   (example_task TODO None False 1)\<lparr>task_id := 2\<rparr>,
                   (example_task DONE None False 2)\<lparr>task_id := 3, deadline := Some 5\<rparr>]"
      worker_claim worker_row None]
  by (simp add: example_defs query_defs get_tasks_as_def task_view_def)

section \<open>Identity verifier: the two outcomes\<close>

text \<open>
  C8. \<^verbatim>\<open>validate_telegram_data\<close> either returns the identity claim that
  \<^verbatim>\<open>json.loads\<close> reads from the \<^verbatim>\<open>user\<close> field of the token, or fails with the one
  \<open>AuthenticationFailure\<close> (403, \<^verbatim>\<open>Auth failed\<close>): whichever exception left the
  \<^verbatim>\<open>try\<close> block (missing header, missing \<^verbatim>\<open>hash\<close>, digest mismatch, missing or
  unreadable \<^verbatim>\<open>user\<close>), the caller sees the same failure.
\<close>

theorem verifier_two_outcomes:
  "(\<exists>qs u tg_user. init_data = Some qs \<and>
        dict_get (AList.delete ''hash'' (dict_of (parse_qsl env qs))) ''user'' = Inr u \<and>
        json_loads env u = Some tg_user \<and>
        validate_telegram_data env init_data bot_token = Inr tg_user) \<or>
   (\<exists>e. validate_try env init_data bot_token = Inl e) \<and>
     validate_telegram_data env init_data bot_token = Inl AuthenticationFailure"
  by (auto simp: validate_telegram_data_def validate_try_def AuthenticationFailure_def dict_pop_def
        Let_def split: option.splits sum.splits if_splits)

text \<open>
  The theorem at a request without the header, a token without signature, a token with a
  wrong signature, and an accepted token.
\<close>

theorem verifier_two_outcomes_witness:
  "validate_telegram_data stub_env None ''token'' = Inl AuthenticationFailure \<and>
   validate_telegram_data stub_env (Some ''nohash'') ''token'' = Inl AuthenticationFailure \<and>
   validate_telegram_data stub_env (Some ''forged'') ''token'' = Inl AuthenticationFailure \<and>
   validate_telegram_data stub_env (Some ''signed'') ''token'' =
     Inr \<lparr>tg_id = 300, first_name = Some ''Ann'', last_name = None\<rparr>"
  using verifier_two_outcomes [of None stub_env "''token''"]
    verifier_two_outcomes [of "Some ''nohash''" stub_env "''token''"]
    verifier_two_outcomes [of "Some ''forged''" stub_env "''token''"]
    verifier_two_outcomes [of "Some ''signed''" stub_env "''token''"]
  by (simp add: stub_env_def validate_telegram_data_def validate_try_def dict_of_def dict_pop_def
        dict_get_def AuthenticationFailure_def AList.delete_eq)

section \<open>The start command and the auth endpoint\<close>

text \<open>
  C9, as the code has it. For an identity and the same display name: when the identity has
  no user row, \<^verbatim>\<open>cmd_start\<close> leaves the store that \<^verbatim>\<open>auth_user\<close> would leave (a new row
  with role owner for the owner identity and worker otherwise); when the identity has a row,
  \<^verbatim>\<open>cmd_start\<close> changes nothing in the store.
\<close>

theorem start_creates_only:
  assumes "tg_id tg_user = from_id" and "display_name tg_user = from_full_name"
  shows "(user_by_telegram_id db from_id = Inr None \<longrightarrow>
            fst (cmd_start owner_id from_id from_full_name db) =
              fst (auth_user_as owner_id tg_user db)) \<and>
         (\<forall>found. user_by_telegram_id db from_id = Inr (Some found) \<longrightarrow>
            cmd_start owner_id from_id from_full_name db = (db, Inr ()))"
  using assms by (auto simp: cmd_start_def auth_user_as_def Let_def)

text \<open>The theorem at the new identity 300 and at the returning worker 200.\<close>

theorem start_creates_only_witness:
  "fst (cmd_start 300 300 ''Ann'' (example_db [])) =
     fst (auth_user_as 300 \<lparr>tg_id = 300, first_name = Some ''Ann'', last_name = None\<rparr> (example_db [])) \<and>
   cmd_start 100 200 ''Wim W. Worker'' (example_db []) = (example_db [], Inr ())"
  using start_creates_only [of "\<lparr>tg_id = 300, first_name = Some ''Ann'', last_name = None\<rparr>"
      300 "''Ann''" "example_db []" 300]
    start_creates_only [of "\<lparr>tg_id = 200, first_name = Some ''Wim W.'', last_name = Some ''Worker''\<rparr>"
      200 "''Wim W. Worker''" "example_db []" 100]
  by (simp add: example_defs query_defs display_name_def strip_def py_isspace_def get_or_empty_def)

text \<open>
  C9 as stated fails for a returning identity. The worker, stored as \<^verbatim>\<open>Wim Worker\<close>, comes
  back under the name \<^verbatim>\<open>Wim W. Worker\<close>: \<^verbatim>\<open>cmd_start\<close> keeps the stored name where
  \<^verbatim>\<open>auth_user\<close> replaces it. And were 200 the owner identity, \<^verbatim>\<open>cmd_start\<close> would keep
  the stored role worker where \<^verbatim>\<open>auth_user\<close> sets owner.
\<close>

theorem start_is_not_auth_counterexample:
  "display_name \<lparr>tg_id = 200, first_name = Some ''Wim W.'', last_name = Some ''Worker''\<rparr> = ''Wim W. Worker'' \<and>
   fst (cmd_start 100 200 ''Wim W. Worker'' (example_db [])) =
     \<lparr>users = [owner_row, worker_row], tasks = []\<rparr> \<and>
   fst (auth_user_as 100 \<lparr>tg_id = 200, first_name = Some ''Wim W.'', last_name = Some ''Worker''\<rparr>
          (example_db [])) =
     \<lparr>users = [owner_row, worker_row\<lparr>full_name := ''Wim W. Worker''\<rparr>], tasks = []\<rparr> \<and>
   fst (cmd_start 200 200 ''Wim Worker'' (example_db [])) =
     \<lparr>users = [owner_row, worker_row], tasks = []\<rparr> \<and>
   fst (auth_user_as 200 worker_claim (example_db [])) =
     \<lparr>users = [owner_row, worker_row\<lparr>role := OWNER\<rparr>], tasks = []\<rparr>"
  by (simp add: example_defs query_defs cmd_start_def auth_user_as_def display_name_def strip_def
        py_isspace_def get_or_empty_def Let_def)

section \<open>A verified identity without a user row\<close>

text \<open>
  C10. For a request whose token verifies, on a store with unique user keys: when the
  identity has no user row, \<^verbatim>\<open>get_tasks\<close> ends in the \<^verbatim>\<open>AttributeError\<close> of
  \<^verbatim>\<open>user.role\<close> on \<^verbatim>\<open>None\<close>, which is none of the failures the handlers raise on
  purpose, and so does \<^verbatim>\<open>update_task\<close> on an existing task; when the identity has a user
  row, \<^verbatim>\<open>get_tasks\<close> returns a list.
\<close>

theorem missing_user_record_crashes:
  assumes valid: "validate_telegram_data env header (BOT_TOKEN env) = Inr tg_user"
    and wf: "distinct (map user_id (users db))"
  shows "(user_by_telegram_id db (tg_id tg_user) = Inr None \<longrightarrow>
            get_tasks env header flt db = Inl (Unhandled AttributeError) \<and>
            Unhandled AttributeError \<notin> set [AuthenticationFailure, Forbidden, OnlyOwner, NotFound, InvalidState] \<and>
            (\<forall>task. task_by_id db tid = Inr (Some task) \<longrightarrow>
               update_task env header tid task_data db = (db, Inl (Unhandled AttributeError)))) \<and>
         (\<forall>user. user_by_telegram_id db (tg_id tg_user) = Inr (Some user) \<longrightarrow>
            (\<exists>views. get_tasks env header flt db = Inr views))"
proof (intro conjI impI allI)
  assume n: "user_by_telegram_id db (tg_id tg_user) = Inr None"
  show "get_tasks env header flt db = Inl (Unhandled AttributeError)"
    using valid n by (simp add: get_tasks_def get_tasks_as_def)
  show "Unhandled AttributeError \<notin> set [AuthenticationFailure, Forbidden, OnlyOwner, NotFound, InvalidState]"
    by (simp add: AuthenticationFailure_def Forbidden_def OnlyOwner_def NotFound_def InvalidState_def)
  fix task assume t: "task_by_id db tid = Inr (Some task)"
  obtain c a where l: "user_by_id db (creator_id task) = Inr c"
      "user_by_id db (assignee_id task) = Inr a"
    using user_lookups_total[OF wf] by blast
  show "update_task env header tid task_data db = (db, Inl (Unhandled AttributeError))"
    using valid n t l by (simp add: update_task_def update_task_as_def)
next
  fix user assume u: "user_by_telegram_id db (tg_id tg_user) = Inr (Some user)"
  obtain vs where "task_views db user (sort_key deadline
      (if role user = WORKER \<or> flt = Some ''mine''
       then filter (\<lambda>t. assignee_id t = Some (user_id user)) (tasks db) else tasks db)) = Inr vs"
    using task_views_ok[OF wf] by blast
  then show "\<exists>views. get_tasks env header flt db = Inr views"
    using valid u by (simp add: get_tasks_def get_tasks_as_def)
qed

text \<open>
  The theorem at the verified identity 300, which has no row, and at the owner, who has one.
\<close>

theorem missing_user_record_crashes_witness:
  "get_tasks stub_env (Some ''signed'') None (example_db [example_task TODO None False 2]) =
     Inl (Unhandled AttributeError) \<and>
   update_task stub_env (Some ''signed'') 1 (status_request DONE)
       (example_db [example_task TODO None False 2]) =
     (example_db [example_task TODO None False 2], Inl (Unhandled AttributeError)) \<and>
   get_tasks (stub_env\<lparr>json_loads := (\<lambda>s. Some owner_claim)\<rparr>) (Some ''signed'') None (example_db []) = Inr []"
  using missing_user_record_crashes [of stub_env "Some ''signed''"
      "\<lparr>tg_id = 300, first_name = Some ''Ann'', last_name = None\<rparr>"
      "example_db [example_task TODO None False 2]" None 1 "status_request DONE"]
    missing_user_record_crashes [of "stub_env\<lparr>json_loads := (\<lambda>s. Some owner_claim)\<rparr>"
      "Some ''signed''" owner_claim "example_db []" None 1 "status_request DONE"]
  by (simp add: stub_env_def validate_telegram_data_def validate_try_def dict_of_def dict_pop_def
        dict_get_def AList.delete_eq example_defs query_defs get_tasks_def get_tasks_as_def)

section \<open>Dispute reason and status on reachable stores\<close>

text \<open>The handlers that write no task, and the steps of \<^verbatim>\<open>update_task\<close>, keep the invariant.\<close>

lemma tasks_auth_user_as: "tasks (fst (auth_user_as owner_id tg_user db)) = tasks db"
  by (simp add: auth_user_as_def Let_def put_user_def split: sum.splits option.splits)

lemma tasks_cmd_start: "tasks (fst (cmd_start owner_id from_id nm db)) = tasks db"
  by (simp add: cmd_start_def Let_def split: sum.splits option.splits)

lemma tasks_update_user_role_as:
  "tasks (fst (update_user_role_as owner_id tg_user target new_role db)) = tasks db"
  by (simp add: update_user_role_as_def put_user_def split: sum.splits option.splits)

lemma create_task_as_keeps:
  assumes "\<forall>t \<in> set (tasks db). reason_tracks_status t"
  shows "\<forall>t \<in> set (tasks (fst (create_task_as tg_user new_task now db))). reason_tracks_status t"
  using assms
  by (auto simp: create_task_as_def Let_def reason_tracks_status_def populated_def
        split: sum.splits option.splits)

lemma put_task_keeps:
  assumes "\<forall>t \<in> set (tasks db). reason_tracks_status t" and "reason_tracks_status t'"
  shows "\<forall>t \<in> set (tasks (put_task t' db)). reason_tracks_status t"
  using assms by (auto simp: put_task_def)

lemma raise_dispute_keeps:
  assumes all: "\<forall>t \<in> set (tasks db). reason_tracks_status t"
    and req: "reasoned_request task_data" "fval (upd_status task_data) = Some DISPUTED"
  shows "\<forall>t \<in> set (tasks (fst (raise_dispute user task creator task_data db))). reason_tracks_status t"
proof -
  let ?t = "task\<lparr>status := Some DISPUTED, dispute_reason := fval (upd_dispute_reason task_data)\<rparr>"
  have "reason_tracks_status ?t"
    using req by (simp add: reason_tracks_status_def reasoned_request_def)
  then have k: "\<forall>t \<in> set (tasks (put_task ?t db)). reason_tracks_status t"
    by (rule put_task_keeps[OF all])
  have "fst (raise_dispute user task creator task_data db) = db \<or>
        fst (raise_dispute user task creator task_data db) = put_task ?t db"
    by (simp add: raise_dispute_def)
  then show ?thesis using all k by metis
qed

lemma resolve_dispute_keeps:
  assumes all: "\<forall>t \<in> set (tasks db). reason_tracks_status t"
    and req: "fval (upd_status task_data) \<noteq> Some DISPUTED"
  shows "\<forall>t \<in> set (tasks (fst (resolve_dispute user task assignee task_data db))). reason_tracks_status t"
proof -
  let ?t1 = "task\<lparr>status := fval (upd_status task_data), dispute_reason := None\<rparr>"
  let ?t2 = "if fval (upd_status task_data) \<noteq> Some DONE then ?t1\<lparr>is_locked := True\<rparr> else ?t1"
  have "reason_tracks_status ?t2"
    using req by (simp add: reason_tracks_status_def populated_def)
  then have k: "\<forall>t \<in> set (tasks (put_task ?t2 db)). reason_tracks_status t"
    by (rule put_task_keeps[OF all])
  have "fst (resolve_dispute user task assignee task_data db) = db \<or>
        fst (resolve_dispute user task assignee task_data db) = put_task ?t2 db"
    by (simp add: resolve_dispute_def Let_def)
  then show ?thesis using all k by metis
qed

lemma set_given_fields_keeps:
  assumes t: "reason_tracks_status task"
    and req: "reasoned_request task_data" "fval (upd_status task_data) \<noteq> Some DISPUTED"
    and cur: "\<not> (status task = Some DISPUTED \<and> fval (upd_status task_data) \<noteq> None)"
    and r: "set_given_fields task_data task = Inr t'"
  shows "reason_tracks_status t'"
proof -
  have d: "dispute_reason t' = dispute_reason task"
    using r by (auto simp: set_given_fields_def Let_def split: field.splits option.splits)
  have s: "status t' = (case upd_status task_data of Unset \<Rightarrow> status task | Given v \<Rightarrow> v)"
    using r by (auto simp: set_given_fields_def Let_def split: field.splits option.splits)
  show ?thesis
  proof (cases "upd_status task_data")
    case Unset
    then show ?thesis using t d s by (simp add: reason_tracks_status_def)
  next
    case (Given v)
    then have "v \<noteq> None" "v \<noteq> Some DISPUTED" using req by (auto simp: reasoned_request_def)
    moreover have "status task \<noteq> Some DISPUTED" using cur Given \<open>v \<noteq> None\<close> by simp
    ultimately show ?thesis using t d s Given by (simp add: reason_tracks_status_def)
  qed
qed

lemma standard_update_keeps:
  assumes all: "\<forall>t \<in> set (tasks db). reason_tracks_status t" and t: "reason_tracks_status task"
    and req: "reasoned_request task_data" "fval (upd_status task_data) \<noteq> Some DISPUTED"
    and cur: "\<not> (status task = Some DISPUTED \<and> fval (upd_status task_data) \<noteq> None)"
  shows "\<forall>t \<in> set (tasks (fst (standard_update user task creator task_data db))). reason_tracks_status t"
proof -
  have "\<exists>t'. reason_tracks_status t' \<and>
          (fst (standard_update user task creator task_data db) = db \<or>
           fst (standard_update user task creator task_data db) = put_task t' db)"
  proof (cases "role user = WORKER")
    case True
    show ?thesis
    proof (cases "fval (upd_status task_data) = None")
      case True
      then show ?thesis using \<open>role user = WORKER\<close> t
        by (intro exI[of _ task]) (simp add: standard_update_def)
    next
      case False
      then have "reason_tracks_status (task\<lparr>status := fval (upd_status task_data)\<rparr>)"
        using t req(2) cur by (simp add: reason_tracks_status_def)
      then show ?thesis using \<open>role user = WORKER\<close> False
        by (intro exI[of _ "task\<lparr>status := fval (upd_status task_data)\<rparr>"])
           (simp add: standard_update_def)
    qed
  next
    case False
    show ?thesis
    proof (cases "set_given_fields task_data task")
      case (Inl e)
      then show ?thesis using False t
        by (intro exI[of _ task]) (simp add: standard_update_def)
    next
      case (Inr t')
      then have "reason_tracks_status t'" using set_given_fields_keeps[OF t req cur] by simp
      then show ?thesis using False Inr
        by (intro exI[of _ t']) (simp add: standard_update_def)
    qed
  qed
  then obtain t' where k: "reason_tracks_status t'"
      "fst (standard_update user task creator task_data db) = db \<or>
       fst (standard_update user task creator task_data db) = put_task t' db"
    by blast
  show ?thesis using k(2) all put_task_keeps[OF all k(1)] by metis
qed

lemma update_task_as_keeps:
  assumes all: "\<forall>t \<in> set (tasks db). reason_tracks_status t" and req: "reasoned_request task_data"
  shows "\<forall>t \<in> set (tasks (fst (update_task_as tg_user tid task_data db))). reason_tracks_status t"
proof (cases "\<exists>user task c a. user_by_telegram_id db (tg_id tg_user) = Inr (Some user) \<and>
    task_by_id db tid = Inr (Some task) \<and> user_by_id db (creator_id task) = Inr c \<and>
    user_by_id db (assignee_id task) = Inr a")
  case False
  then have "fst (update_task_as tg_user tid task_data db) = db"
    by (auto simp: update_task_as_def split: sum.splits option.splits)
  then show ?thesis using all by simp
next
  case True
  then obtain user task c a where l: "user_by_telegram_id db (tg_id tg_user) = Inr (Some user)"
    "task_by_id db tid = Inr (Some task)" "user_by_id db (creator_id task) = Inr c"
    "user_by_id db (assignee_id task) = Inr a" by blast
  have t: "reason_tracks_status task" using task_by_id_key(2)[OF l(2)] all by blast
  have r: "update_task_as tg_user tid task_data db =
      (if fval (upd_status task_data) = Some DISPUTED
       then raise_dispute user task c task_data db
       else if status task = Some DISPUTED \<and> fval (upd_status task_data) \<noteq> None
       then resolve_dispute user task a task_data db
       else standard_update user task c task_data db)"
    using l by (simp add: update_task_as_def)
  show ?thesis
  proof (cases "fval (upd_status task_data) = Some DISPUTED")
    case True
    then have "update_task_as tg_user tid task_data db = raise_dispute user task c task_data db"
      using r by simp
    then show ?thesis using raise_dispute_keeps[OF all req True] by simp
  next
    case nd: False
    show ?thesis
    proof (cases "status task = Some DISPUTED \<and> fval (upd_status task_data) \<noteq> None")
      case True
      then have "update_task_as tg_user tid task_data db =
          resolve_dispute user task a task_data db"
        using r nd by auto
      then show ?thesis using resolve_dispute_keeps[OF all nd] by simp
    next
      case False
      then have "update_task_as tg_user tid task_data db =
          standard_update user task c task_data db"
        using r nd by auto
      then show ?thesis using standard_update_keeps[OF all t req nd False] by simp
    qed
  qed
qed

text \<open>
  C5, as the code has it. On every store reachable through the handlers by task updates that
  give no explicit null status and that carry a populated dispute reason whenever they ask
  for status disputed, a task's dispute reason is populated if and only if its status is
  disputed. (Raising a dispute stores the reason of the request as it is, absent included, and
  resolving one clears it.)
\<close>

theorem dispute_reason_tracks_status:
  assumes "reachable reasoned_request owner_id db"
  shows "\<forall>t \<in> set (tasks db). populated (dispute_reason t) \<longleftrightarrow> status t = Some DISPUTED"
proof -
  have "\<forall>t \<in> set (tasks db). reason_tracks_status t"
    using assms
  proof (induction rule: reachable.induct)
    case start_up
    then show ?case by (simp add: empty_db_def)
  next
    case (after_update db task_data tg_user tid)
    then show ?case using update_task_as_keeps by blast
  next
    case (after_create db tg_user new_task now)
    then show ?case using create_task_as_keeps by blast
  qed (simp_all add: tasks_auth_user_as tasks_cmd_start tasks_update_user_role_as)
  then show ?thesis by (simp add: reason_tracks_status_def)
qed

text \<open>
  The store after the owner and the worker signed in and the owner created task 1 for the
  worker, and that store after the worker disputed the task with a reason.
\<close>

lemma example_store_reachable:
  "reachable admitted 100 (example_db [example_task TODO None False 2])"
proof -
  have r0: "reachable admitted 100 empty_db" by (rule reachable.start_up)
  have r1: "reachable admitted 100 (fst (auth_user_as 100 owner_claim empty_db))"
    by (rule reachable.after_auth[OF r0])
  have e1: "fst (auth_user_as 100 owner_claim empty_db) = \<lparr>users = [owner_row], tasks = []\<rparr>"
    by (simp add: example_defs query_defs empty_db_def auth_user_as_def display_name_def strip_def
          py_isspace_def get_or_empty_def next_id_def Let_def)
  have r2: "reachable admitted 100
      (fst (auth_user_as 100 worker_claim \<lparr>users = [owner_row], tasks = []\<rparr>))"
    using reachable.after_auth[OF r1] e1 by simp
  have e2: "fst (auth_user_as 100 worker_claim \<lparr>users = [owner_row], tasks = []\<rparr>) = example_db []"
    by (simp add: example_defs query_defs auth_user_as_def display_name_def strip_def
          py_isspace_def get_or_empty_def next_id_def Let_def)
  have r3: "reachable admitted 100 (fst (create_task_as owner_claim
      \<lparr>new_title = ''T1'', new_description = Some [], new_assignee_id = 2, new_deadline = None\<rparr>
      0 (example_db [])))"
    using reachable.after_create[OF r2] e2 by simp
  have e3: "fst (create_task_as owner_claim
      \<lparr>new_title = ''T1'', new_description = Some [], new_assignee_id = 2, new_deadline = None\<rparr>
      0 (example_db [])) = example_db [example_task TODO None False 2]"
    by (simp add: example_defs query_defs create_task_as_def next_id_def Let_def)
  show ?thesis using r3 e3 by simp
qed

lemma disputed_store_reachable:
  "reachable reasoned_request 100 (example_db [example_task DISPUTED (Some ''blocked'') False 2])"
proof -
  have a: "reasoned_request (full_request DISPUTED ''blocked'')"
    by (simp add: reasoned_request_def populated_def example_defs)
  have e: "fst (update_task_as worker_claim 1 (full_request DISPUTED ''blocked'')
      (example_db [example_task TODO None False 2])) =
      example_db [example_task DISPUTED (Some ''blocked'') False 2]"
    by (simp add: example_defs query_defs update_task_as_def raise_dispute_def)
  show ?thesis
    using reachable.after_update[where admitted = reasoned_request and owner_id = 100
        and task_data = "full_request DISPUTED ''blocked''" and tg_user = worker_claim
        and tid = 1, OF example_store_reachable a] e by simp
qed

text \<open>The theorem at the second of these stores.\<close>

theorem dispute_reason_tracks_status_witness:
  "reachable reasoned_request 100 (example_db [example_task DISPUTED (Some ''blocked'') False 2]) \<and>
   populated (dispute_reason (example_task DISPUTED (Some ''blocked'') False 2)) \<and>
   status (example_task DISPUTED (Some ''blocked'') False 2) = Some DISPUTED"
  using dispute_reason_tracks_status [OF disputed_store_reachable] disputed_store_reachable
  by (simp add: example_defs)

text \<open>
  C5 as stated fails: the worker disputes their task with a body that carries the status only;
  the stored task is disputed and its dispute reason is absent.
\<close>

theorem disputed_without_reason_counterexample:
  "reachable (\<lambda>task_data. True) 100 (example_db [example_task DISPUTED None False 2]) \<and>
   status (example_task DISPUTED None False 2) = Some DISPUTED \<and>
   dispute_reason (example_task DISPUTED None False 2) = None"
proof -
  have e: "fst (update_task_as worker_claim 1 (status_request DISPUTED)
      (example_db [example_task TODO None False 2])) =
      example_db [example_task DISPUTED None False 2]"
    by (simp add: example_defs query_defs update_task_as_def raise_dispute_def)
  have "reachable (\<lambda>task_data. True) 100 (example_db [example_task DISPUTED None False 2])"
    using reachable.after_update[where admitted = "\<lambda>task_data. True" and owner_id = 100
        and task_data = "status_request DISPUTED" and tg_user = worker_claim
        and tid = 1, OF example_store_reachable] e by simp
  then show ?thesis by (simp add: example_defs)
qed

text \<open>
  Why the theorem leaves out bodies with an explicit null status: the privileged update
  assigns the null to the status of a disputed task without clearing the reason, and the next
  status update is then a standard one, so a task that is not disputed keeps a reason.
\<close>

lemma stale_reason_reachable:
  "reachable (\<lambda>task_data. True) 100 (example_db [example_task TODO (Some ''blocked'') False 2])"
proof -
  let ?null = "\<lparr>upd_status = Given None, upd_title = Unset, upd_description = Unset,
      upd_deadline = Unset, upd_dispute_reason = Unset\<rparr>"
  have e1: "fst (update_task_as worker_claim 1 (full_request DISPUTED ''blocked'')
      (example_db [example_task TODO None False 2])) =
      example_db [example_task DISPUTED (Some ''blocked'') False 2]"
    by (simp add: example_defs query_defs update_task_as_def raise_dispute_def)
  have r1: "reachable (\<lambda>task_data. True) 100
      (example_db [example_task DISPUTED (Some ''blocked'') False 2])"
    using reachable.after_update[where admitted = "\<lambda>task_data. True" and owner_id = 100
        and task_data = "full_request DISPUTED ''blocked''" and tg_user = worker_claim
        and tid = 1, OF example_store_reachable] e1 by simp
  have e2: "fst (update_task_as owner_claim 1 ?null
      (example_db [example_task DISPUTED (Some ''blocked'') False 2])) =
      example_db [(example_task DISPUTED (Some ''blocked'') False 2)\<lparr>status := None\<rparr>]"
    by (simp add: example_defs query_defs update_task_as_def standard_update_def
          set_given_fields_def)
  have r2: "reachable (\<lambda>task_data. True) 100
      (example_db [(example_task DISPUTED (Some ''blocked'') False 2)\<lparr>status := None\<rparr>])"
    using reachable.after_update[where admitted = "\<lambda>task_data. True" and owner_id = 100
        and task_data = ?null and tg_user = owner_claim and tid = 1, OF r1] e2 by simp
  have e3: "fst (update_task_as owner_claim 1 (status_request TODO)
      (example_db [(example_task DISPUTED (Some ''blocked'') False 2)\<lparr>status := None\<rparr>])) =
      example_db [example_task TODO (Some ''blocked'') False 2]"
    by (simp add: example_defs query_defs update_task_as_def standard_update_def
          set_given_fields_def)
  show ?thesis
    using reachable.after_update[where admitted = "\<lambda>task_data. True" and owner_id = 100
        and task_data = "status_request TODO" and tg_user = owner_claim and tid = 1, OF r2] e3
    by simp
qed

end
